theory Spec2Isabelle
  imports Complex_Main "HOL-Library.Multiset"
begin

section \<open>Fleet table and candidates\<close>

text \<open>
  The optimisation scripts \<^verbatim>\<open>optimization_engine_v2.py\<close> and
  \<^verbatim>\<open>optimization_engine_v3.py\<close> keep the fleet in a data frame
  \<^verbatim>\<open>train_df\<close> with one row per trainset. A row is a record with the columns the
  scripts read. Numbers are modelled as exact reals (the scripts use binary floating
  point); the second script adds the column \<^verbatim>\<open>branding_priority_score\<close>, the
  first one never reads it.
\<close>

record FleetUnit =
  trainsetId :: string
  mileage :: real
  job_card_open :: bool
  fitness_certificate_valid :: bool
  punctuality_score :: real
  branding_priority_score :: real

type_synonym table = "FleetUnit list"

datatype error = ValueError | TypeError | IndexError

section \<open>Array operations used by the evaluator\<close>

text \<open>
  \<^verbatim>\<open>x\<close> is a matrix with one candidate per row, and every operation of
  \<^verbatim>\<open>_evaluate\<close> works along \<^verbatim>\<open>axis=1\<close>, that is on each row on its own. The model
  evaluates one row. \<^verbatim>\<open>x * column\<close> multiplies position by position; when the
  lengths differ, an operand of length one is stretched, and any other mismatch raises
  \<^verbatim>\<open>ValueError\<close>.
\<close>

definition np_mul :: "real list \<Rightarrow> real list \<Rightarrow> error + real list" where
  "np_mul xs vs =
     (if length xs = length vs then Inr (map2 (*) xs vs)
      else if length xs = 1 then Inr (map (\<lambda>v. hd xs * v) vs)
      else if length vs = 1 then Inr (map (\<lambda>a. a * hd vs) xs)
      else Inl ValueError)"

text \<open>\<^verbatim>\<open>np.sum(x * column, axis=1)\<close> for one row.\<close>

definition np_sum_mul :: "real list \<Rightarrow> real list \<Rightarrow> error + real" where
  "np_sum_mul xs vs = (case np_mul xs vs of Inl e \<Rightarrow> Inl e | Inr ps \<Rightarrow> Inr (sum_list ps))"

text \<open>A boolean column enters a product as 0 and 1.\<close>

definition bool_values :: "bool list \<Rightarrow> real list" where
  "bool_values bs = map of_bool bs"

section \<open>The optimisation problem\<close>

definition N_TO_SELECT :: real where
  "N_TO_SELECT = 15"

record problem =
  n_var :: nat
  n_obj :: nat
  n_constr :: nat
  xl :: real
  xu :: real
  df :: table

definition TrainSchedulingProblem :: "table \<Rightarrow> problem" where
  "TrainSchedulingProblem t =
     \<lparr>n_var = length t, n_obj = 2, n_constr = 3, xl = 0, xu = 1, df = t\<rparr>"

definition TrainSchedulingProblemV3 :: "table \<Rightarrow> problem" where
  "TrainSchedulingProblemV3 t =
     \<lparr>n_var = length t, n_obj = 3, n_constr = 3, xl = 0, xu = 1, df = t\<rparr>"

text \<open>
  \<^verbatim>\<open>out\<close> is the dictionary the optimiser hands to \<^verbatim>\<open>_evaluate\<close>; the method
  stores the objective row under \<^verbatim>\<open>"F"\<close> and the constraint row under \<^verbatim>\<open>"G"\<close>.
  The model returns the problem object together with the updated dictionary, so that
  what the call does to either is visible.
\<close>

type_synonym out_dict = "string \<rightharpoonup> real list"

definition safe_divisor :: "real list \<Rightarrow> real" where
  "safe_divisor x = (if sum_list x > 0 then sum_list x else 1)"

definition evaluate_v2 :: "problem \<Rightarrow> real list \<Rightarrow> out_dict \<Rightarrow> error + problem \<times> out_dict" where
  "evaluate_v2 self x out =
     (case np_sum_mul x (map mileage (df self)) of
        Inl e \<Rightarrow> Inl e
      | Inr f1 \<Rightarrow>
     (case np_sum_mul x (map punctuality_score (df self)) of
        Inl e \<Rightarrow> Inl e
      | Inr punctuality_scores \<Rightarrow>
     (let avg_punctuality = punctuality_scores / safe_divisor x;
          f2 = 100 - avg_punctuality;
          g1 = (sum_list x - N_TO_SELECT)\<^sup>2
      in
     (case np_sum_mul x (bool_values (map job_card_open (df self))) of
        Inl e \<Rightarrow> Inl e
      | Inr g2 \<Rightarrow>
     (case np_sum_mul x (bool_values (map (\<lambda>u. \<not> fitness_certificate_valid u) (df self))) of
        Inl e \<Rightarrow> Inl e
      | Inr g3 \<Rightarrow> Inr (self, out(''F'' \<mapsto> [f1, f2], ''G'' \<mapsto> [g1, g2, g3])))))))"

definition evaluate_v3 :: "problem \<Rightarrow> real list \<Rightarrow> out_dict \<Rightarrow> error + problem \<times> out_dict" where
  "evaluate_v3 self x out =
     (case np_sum_mul x (map mileage (df self)) of
        Inl e \<Rightarrow> Inl e
      | Inr f1 \<Rightarrow>
     (case np_sum_mul x (map punctuality_score (df self)) of
        Inl e \<Rightarrow> Inl e
      | Inr punctuality_scores \<Rightarrow>
     (let avg_punctuality = punctuality_scores / safe_divisor x;
          f2 = 100 - avg_punctuality
      in
     (case np_sum_mul x (map branding_priority_score (df self)) of
        Inl e \<Rightarrow> Inl e
      | Inr branding \<Rightarrow>
     (let f3 = - branding;
          g1 = (sum_list x - N_TO_SELECT)\<^sup>2
      in
     (case np_sum_mul x (bool_values (map job_card_open (df self))) of
        Inl e \<Rightarrow> Inl e
      | Inr g2 \<Rightarrow>
     (case np_sum_mul x (bool_values (map (\<lambda>u. \<not> fitness_certificate_valid u) (df self))) of
        Inl e \<Rightarrow> Inl e
      | Inr g3 \<Rightarrow> Inr (self, out(''F'' \<mapsto> [f1, f2, f3], ''G'' \<mapsto> [g1, g2, g3])))))))))"

text \<open>The objective row and the constraint row a call leaves in the dictionary.\<close>

definition objectives :: "error + problem \<times> out_dict \<Rightarrow> real list option" where
  "objectives r = (case r of Inl e \<Rightarrow> None | Inr (p, out) \<Rightarrow> out ''F'')"

definition constraints :: "error + problem \<times> out_dict \<Rightarrow> real list option" where
  "constraints r = (case r of Inl e \<Rightarrow> None | Inr (p, out) \<Rightarrow> out ''G'')"

section \<open>Selections\<close>

text \<open>
  A candidate bit-string has every entry 0 or 1; the units it selects are the rows at
  the positions holding 1, in table order. The mean of an empty list is taken as 0.
\<close>

definition bitstring :: "real list \<Rightarrow> bool" where
  "bitstring x = list_all (\<lambda>b. b = 0 \<or> b = 1) x"

definition selected_units :: "table \<Rightarrow> real list \<Rightarrow> FleetUnit list" where
  "selected_units t x = map fst (filter (\<lambda>(u, b). b = 1) (zip t x))"

definition mean :: "real list \<Rightarrow> real" where
  "mean vs = (if vs = [] then 0 else sum_list vs / real (length vs))"

text \<open>
  The optimiser may call \<^verbatim>\<open>_evaluate\<close> on the same candidate again and again,
  each call receiving the problem object and the dictionary the previous call left.
\<close>

fun evaluate_times ::
  "(problem \<Rightarrow> real list \<Rightarrow> out_dict \<Rightarrow> error + problem \<times> out_dict) \<Rightarrow> nat \<Rightarrow>
   problem \<Rightarrow> real list \<Rightarrow> out_dict \<Rightarrow> error + problem \<times> out_dict" where
  "evaluate_times ev 0 self x out = Inr (self, out)"
| "evaluate_times ev (Suc k) self x out =
     (case ev self x out of Inl e \<Rightarrow> Inl e | Inr (self', out') \<Rightarrow> evaluate_times ev k self' x out')"

section \<open>Deriving the punctuality score\<close>

text \<open>
  Both scripts derive \<^verbatim>\<open>punctuality_score\<close> from the mileage column: min-max
  normalisation, \<^verbatim>\<open>100 - mileage_norm * 5\<close>, then \<^verbatim>\<open>round(2)\<close>. The minimum and
  maximum of an empty column are NaN, and a division by zero gives NaN or an infinity
  without raising; \<open>None\<close> stands for such a non-finite number. \<^verbatim>\<open>round(2)\<close> scales
  by 100, rounds to the nearest integer with ties to the even one, and scales back.
\<close>

definition series_min :: "real list \<Rightarrow> real option" where
  "series_min vs = (case vs of [] \<Rightarrow> None | v # rest \<Rightarrow> Some (fold min rest v))"

definition series_max :: "real list \<Rightarrow> real option" where
  "series_max vs = (case vs of [] \<Rightarrow> None | v # rest \<Rightarrow> Some (fold max rest v))"

definition float_div :: "real \<Rightarrow> real \<Rightarrow> real option" where
  "float_div a b = (if b = 0 then None else Some (a / b))"

definition round_half_even :: "real \<Rightarrow> int" where
  "round_half_even v =
     (let f = \<lfloor>v\<rfloor>; d = v - of_int f
      in if d < 1 / 2 then f else if 1 / 2 < d then f + 1 else if even f then f else f + 1)"

definition round2 :: "real \<Rightarrow> real" where
  "round2 v = of_int (round_half_even (v * 100)) / 100"

definition derive_punctuality_score :: "real list \<Rightarrow> real option list" where
  "derive_punctuality_score ms =
     (case (series_min ms, series_max ms) of
        (Some min_mileage, Some max_mileage) \<Rightarrow>
          map (\<lambda>m. case float_div (m - min_mileage) (max_mileage - min_mileage) of
                      None \<Rightarrow> None
                    | Some mileage_norm \<Rightarrow> Some (round2 (100 - mileage_norm * 5))) ms
      | _ \<Rightarrow> map (\<lambda>m. None) ms)"

section \<open>From loading to the optimiser call\<close>

text \<open>
  The first block of \<^verbatim>\<open>optimization_engine_v2.py\<close> builds \<^verbatim>\<open>train_df\<close> inside
  \<^verbatim>\<open>try\<close>; the only handler is for \<^verbatim>\<open>FileNotFoundError\<close>, which prints a message
  and calls \<^verbatim>\<open>exit()\<close>. Any other exception is not caught. Otherwise the script
  constructs the problem from the frame and calls \<^verbatim>\<open>minimize\<close> with a population of
  200 for 400 generations. The outcome of the \<^verbatim>\<open>try\<close> block is the input of the model.
\<close>

datatype load_error = FileNotFoundError | OtherError

datatype script_state =
    ExitedWithMessage
  | Uncaught load_error
  | MinimizeCalled problem nat nat

definition script_v2 :: "load_error + table \<Rightarrow> script_state" where
  "script_v2 loaded =
     (case loaded of
        Inl FileNotFoundError \<Rightarrow> ExitedWithMessage
      | Inl e \<Rightarrow> Uncaught e
      | Inr train_df \<Rightarrow> MinimizeCalled (TrainSchedulingProblem train_df) 200 400)"

section \<open>Reporting the results\<close>

text \<open>
  \<^verbatim>\<open>res\<close> is what \<^verbatim>\<open>minimize\<close> returns: \<^verbatim>\<open>res.X\<close> holds one solution vector per
  row and \<^verbatim>\<open>res.F\<close> the objective rows; both are \<^verbatim>\<open>None\<close> when the optimiser found
  no feasible solution. What a script prints is a list of lines, each carrying the values
  handed to the format string; a run is the lines printed together with the exception
  that ended it, if any.
\<close>

record result =
  res_X :: "real list list option"
  res_F :: "real list list option"

datatype line =
    ResultsHeader
  | EligibleTrains nat
  | NoValidSolution
  | FoundSolutions nat
  | SolutionHeader nat
  | CostMileage real
  | Punctuality real
  | SelectedTrainsHeader
  | SelectedTrainsRows "(string \<times> real \<times> real) list"
  | AnalysisHeader
  | OptimalFleet nat
  | Performance real real real
  | SelectedTrains nat "string list"
  | AnalysisFooter

text \<open>\<^verbatim>\<open>train_df[mask]\<close>: a mask of the wrong length raises \<^verbatim>\<open>ValueError\<close>.\<close>

definition bool_index :: "'a list \<Rightarrow> bool list \<Rightarrow> error + 'a list" where
  "bool_index t flags =
     (if length flags = length t then Inr (map fst (filter snd (zip t flags)))
      else Inl ValueError)"

text \<open>
  The loop of the first script over \<^verbatim>\<open>zip(res.X, res.F)\<close>. \<^verbatim>\<open>sort_values\<close> does not
  promise an order among rows of equal mileage, so the sort is a parameter.
\<close>

fun print_solutions_v2 ::
  "(FleetUnit list \<Rightarrow> FleetUnit list) \<Rightarrow> table \<Rightarrow> nat \<Rightarrow> (real list \<times> real list) list \<Rightarrow>
   line list \<times> error option" where
  "print_solutions_v2 sort_values t i [] = ([], None)"
| "print_solutions_v2 sort_values t i ((solution_vars, solution_objectives) # rest) =
     (case solution_objectives of
        [] \<Rightarrow> ([SolutionHeader (i + 1)], Some IndexError)
      | [c] \<Rightarrow> ([SolutionHeader (i + 1), CostMileage c], Some IndexError)
      | c # p # _ \<Rightarrow>
          (case bool_index t (map (\<lambda>v. v \<noteq> 0) solution_vars) of
             Inl e \<Rightarrow> ([SolutionHeader (i + 1), CostMileage c, Punctuality (100 - p)], Some e)
           | Inr rows \<Rightarrow>
               (let selected_trains = sort_values rows;
                    (later, err) = print_solutions_v2 sort_values t (i + 1) rest
                in ([SolutionHeader (i + 1), CostMileage c, Punctuality (100 - p),
                     SelectedTrainsHeader,
                     SelectedTrainsRows
                       (map (\<lambda>u. (trainsetId u, mileage u, punctuality_score u)) selected_trains)]
                    @ later, err))))"

definition results_v2 ::
  "(FleetUnit list \<Rightarrow> FleetUnit list) \<Rightarrow> table \<Rightarrow> result \<Rightarrow> line list \<times> error option" where
  "results_v2 sort_values t res =
     (let eligible_trains =
            filter (\<lambda>u. job_card_open u = False \<and> fitness_certificate_valid u = True) t;
          start = [ResultsHeader, EligibleTrains (length eligible_trains)]
      in case res_X res of
           None \<Rightarrow> (start @ [NoValidSolution], None)
         | Some xs \<Rightarrow>
             (case res_F res of
                None \<Rightarrow> (start, Some TypeError)
              | Some fs \<Rightarrow>
                  (let (ls, err) = print_solutions_v2 sort_values t 0 (zip xs fs)
                   in (start @ [FoundSolutions (length fs)] @ ls, err))))"

text \<open>
  The loop of the second script over \<^verbatim>\<open>enumerate(res.X)\<close>; each solution vector is
  turned into a mask with the threshold 0.5, and the objective row is read at the same
  index of \<^verbatim>\<open>res.F\<close>.
\<close>

fun analyse_v3 ::
  "table \<Rightarrow> real list list option \<Rightarrow> nat \<Rightarrow> real list list \<Rightarrow> line list \<times> error option" where
  "analyse_v3 t optimal_objectives i [] = ([], None)"
| "analyse_v3 t optimal_objectives i (solution_float_mask # rest) =
     (let solution_mask = map (\<lambda>v. v > 1 / 2) solution_float_mask
      in case bool_index t solution_mask of
           Inl e \<Rightarrow> ([], Some e)
         | Inr selected_trains_df \<Rightarrow>
             (let selected_ids = map trainsetId selected_trains_df
              in case optimal_objectives of
                   None \<Rightarrow> ([], Some TypeError)
                 | Some fs \<Rightarrow>
                     if i < length fs \<and> 3 \<le> length (fs ! i) then
                       (let mileage_total = fs ! i ! 0;
                            punctuality = 100 - fs ! i ! 1;
                            branding_score = - (fs ! i ! 2);
                            (later, err) = analyse_v3 t optimal_objectives (i + 1) rest
                        in ([OptimalFleet (i + 1),
                             Performance mileage_total punctuality branding_score,
                             SelectedTrains (length selected_ids) selected_ids] @ later, err))
                     else ([], Some IndexError)))"

definition results_v3 :: "table \<Rightarrow> result \<Rightarrow> line list \<times> error option" where
  "results_v3 t res =
     (case res_X res of
        None \<Rightarrow> ([AnalysisHeader], Some TypeError)
      | Some optimal_solutions_floats \<Rightarrow>
          (let (ls, err) = analyse_v3 t (res_F res) 0 optimal_solutions_floats
           in if err = None then (AnalysisHeader # ls @ [AnalysisFooter], None)
              else (AnalysisHeader # ls, err)))"

section \<open>A small fleet\<close>

text \<open>
  Three units in the manner of the scenario of the specification: A and B are eligible,
  C has an open job card and no valid certificate.
\<close>

definition unit_A :: FleetUnit where
  "unit_A = \<lparr>trainsetId = ''A'', mileage = 100, job_card_open = False,
             fitness_certificate_valid = True, punctuality_score = 90,
             branding_priority_score = 3\<rparr>"

definition unit_B :: FleetUnit where
  "unit_B = \<lparr>trainsetId = ''B'', mileage = 50, job_card_open = False,
             fitness_certificate_valid = True, punctuality_score = 80,
             branding_priority_score = 0\<rparr>"

definition unit_C :: FleetUnit where
  "unit_C = \<lparr>trainsetId = ''C'', mileage = 70, job_card_open = True,
             fitness_certificate_valid = False, punctuality_score = 60,
             branding_priority_score = 4\<rparr>"

definition small_fleet :: table where
  "small_fleet = [unit_A, unit_B, unit_C]"

lemmas small_fleet_defs = small_fleet_def unit_A_def unit_B_def unit_C_def

section \<open>Properties of the evaluator\<close>

lemma np_sum_mul_same_length:
  "length xs = length vs \<Longrightarrow> np_sum_mul xs vs = Inr (sum_list (map2 (*) xs vs))"
  by (simp add: np_sum_mul_def np_mul_def)

lemma evaluate_v2_closed_form:
  assumes "length x = length (df self)"
  shows "evaluate_v2 self x out =
           Inr (self, out(''F'' \<mapsto> [sum_list (map2 (*) x (map mileage (df self))),
                                 100 - sum_list (map2 (*) x (map punctuality_score (df self)))
                                        / safe_divisor x],
                          ''G'' \<mapsto> [(sum_list x - N_TO_SELECT)\<^sup>2,
                                 sum_list (map2 (*) x (bool_values (map job_card_open (df self)))),
                                 sum_list (map2 (*) x (bool_values
                                   (map (\<lambda>u. \<not> fitness_certificate_valid u) (df self))))]))"
  using assms by (simp add: evaluate_v2_def np_sum_mul_same_length bool_values_def Let_def)

lemma evaluate_v3_closed_form:
  assumes "length x = length (df self)"
  shows "evaluate_v3 self x out =
           Inr (self, out(''F'' \<mapsto> [sum_list (map2 (*) x (map mileage (df self))),
                                 100 - sum_list (map2 (*) x (map punctuality_score (df self)))
                                        / safe_divisor x,
                                 - sum_list (map2 (*) x (map branding_priority_score (df self)))],
                          ''G'' \<mapsto> [(sum_list x - N_TO_SELECT)\<^sup>2,
                                 sum_list (map2 (*) x (bool_values (map job_card_open (df self)))),
                                 sum_list (map2 (*) x (bool_values
                                   (map (\<lambda>u. \<not> fitness_certificate_valid u) (df self))))]))"
  using assms by (simp add: evaluate_v3_def np_sum_mul_same_length bool_values_def Let_def)

lemma weighted_sum_selected:
  assumes "length x = length t" "bitstring x"
  shows "sum_list (map2 (*) x (map f t)) = sum_list (map f (selected_units t x))"
  using assms
  by (induction x t rule: list_induct2) (auto simp: bitstring_def selected_units_def)

lemma sum_bits_selected:
  assumes "length x = length t" "bitstring x"
  shows "sum_list x = real (length (selected_units t x))"
  using assms
  by (induction x t rule: list_induct2) (auto simp: bitstring_def selected_units_def)


lemma safe_divisor_selected:
  assumes "length x = length t" "bitstring x"
  shows "sum_list (map f (selected_units t x)) / safe_divisor x = mean (map f (selected_units t x))"
proof (cases "selected_units t x = []")
  case True
  then show ?thesis by (simp add: mean_def)
next
  case False
  then have "0 < length (selected_units t x)" by simp
  then have "0 < sum_list x" using sum_bits_selected [OF assms] by simp
  then show ?thesis
    using False sum_bits_selected [OF assms] by (simp add: safe_divisor_def mean_def)
qed

section \<open>Claims about the evaluator\<close>

text \<open>
  C1. For every candidate bit-string \<open>x\<close> (of the table's length) and every table, the
  first objective the evaluator stores is the sum of the mileage of the selected units,
  and the second is 100 minus the mean punctuality score of the selected units, the mean
  of an empty selection being 0 (so the all-zero candidate gets 100). This holds for the
  evaluator of either script; the second script stores a third objective after these two.
\<close>

theorem C1_objectives:
  assumes "length x = length (df self)" and "bitstring x"
  shows "objectives (evaluate_v2 self x out)
           = Some [sum_list (map mileage (selected_units (df self) x)),
                   100 - mean (map punctuality_score (selected_units (df self) x))]
       \<and> map_option (take 2) (objectives (evaluate_v3 self x out))
           = Some [sum_list (map mileage (selected_units (df self) x)),
                   100 - mean (map punctuality_score (selected_units (df self) x))]"
  using assms
  by (simp add: evaluate_v2_closed_form evaluate_v3_closed_form objectives_def
        weighted_sum_selected safe_divisor_selected)

theorem C1_objectives_witness:
  "length [1, 1, 0 :: real] = length (df (TrainSchedulingProblem small_fleet))
   \<and> bitstring [1, 1, 0]
   \<and> objectives (evaluate_v2 (TrainSchedulingProblem small_fleet) [1, 1, 0] Map.empty)
       = Some [150, 15]
   \<and> length [0, 0, 0 :: real] = length (df (TrainSchedulingProblemV3 small_fleet))
   \<and> bitstring [0, 0, 0]
   \<and> map_option (take 2)
        (objectives (evaluate_v3 (TrainSchedulingProblemV3 small_fleet) [0, 0, 0] Map.empty))
       = Some [0, 100]"
  using C1_objectives [of "[1, 1, 0]" "TrainSchedulingProblem small_fleet" Map.empty]
        C1_objectives [of "[0, 0, 0]" "TrainSchedulingProblemV3 small_fleet" Map.empty]
  by (simp add: TrainSchedulingProblem_def TrainSchedulingProblemV3_def small_fleet_defs
        bitstring_def selected_units_def mean_def)






text \<open>
  C6. The evaluator of the second script stores, as third objective, the negated sum of
  the branding priority scores of the selected units. The evaluator of the first script
  stores exactly two objectives, the total mileage and 100 minus the mean punctuality,
  and what it stores does not depend on the branding column.
\<close>

theorem C6_branding_objective:
  assumes "length x = length (df self)" and "bitstring x"
  shows "(\<exists>f1 f2. objectives (evaluate_v3 self x out)
            = Some [f1, f2, - sum_list (map branding_priority_score (selected_units (df self) x))])
       \<and> objectives (evaluate_v2 self x out)
            = Some [sum_list (map mileage (selected_units (df self) x)),
                    100 - mean (map punctuality_score (selected_units (df self) x))]
       \<and> map_option length (objectives (evaluate_v2 self x out)) = Some 2
       \<and> (\<forall>g. objectives (evaluate_v2
                  (self\<lparr>df := map (branding_priority_score_update g) (df self)\<rparr>) x out)
               = objectives (evaluate_v2 self x out))"
  using assms
  by (simp add: evaluate_v2_closed_form evaluate_v3_closed_form objectives_def
        weighted_sum_selected safe_divisor_selected o_def)

theorem C6_branding_objective_witness:
  "length [1, 0, 1 :: real] = length (df (TrainSchedulingProblemV3 small_fleet))
   \<and> bitstring [1, 0, 1]
   \<and> objectives (evaluate_v3 (TrainSchedulingProblemV3 small_fleet) [1, 0, 1] Map.empty)
       = Some [170, 25, - 7]
   \<and> objectives (evaluate_v2 (TrainSchedulingProblemV3 small_fleet) [1, 0, 1] Map.empty)
       = Some [170, 25]"
  using C6_branding_objective [of "[1, 0, 1]" "TrainSchedulingProblemV3 small_fleet" Map.empty]
  by (simp add: TrainSchedulingProblemV3_def small_fleet_defs bitstring_def
        evaluate_v2_def evaluate_v3_def np_sum_mul_def np_mul_def safe_divisor_def
        bool_values_def objectives_def selected_units_def mean_def)

lemma evaluate_v2_shape:
  "\<exists>r. \<forall>out. evaluate_v2 self x out =
      (case r of Inl e \<Rightarrow> Inl e | Inr (F, G) \<Rightarrow> Inr (self, out(''F'' \<mapsto> F, ''G'' \<mapsto> G)))"
proof (cases "evaluate_v2 self x Map.empty")
  case (Inl e)
  then have "\<forall>out. evaluate_v2 self x out =
      (case (Inl e :: error + real list \<times> real list) of
         Inl e \<Rightarrow> Inl e | Inr (F, G) \<Rightarrow> Inr (self, out(''F'' \<mapsto> F, ''G'' \<mapsto> G)))"
    by (auto simp: evaluate_v2_def Let_def split: sum.splits)
  then show ?thesis by blast
next
  case (Inr a)
  then obtain F G where
    "\<forall>out. evaluate_v2 self x out = Inr (self, out(''F'' \<mapsto> F, ''G'' \<mapsto> G))"
    by (auto simp: evaluate_v2_def Let_def split: sum.splits)
  then have "\<forall>out. evaluate_v2 self x out =
      (case (Inr (F, G) :: error + real list \<times> real list) of
         Inl e \<Rightarrow> Inl e | Inr (F, G) \<Rightarrow> Inr (self, out(''F'' \<mapsto> F, ''G'' \<mapsto> G)))"
    by simp
  then show ?thesis by blast
qed

lemma evaluate_v3_shape:
  "\<exists>r. \<forall>out. evaluate_v3 self x out =
      (case r of Inl e \<Rightarrow> Inl e | Inr (F, G) \<Rightarrow> Inr (self, out(''F'' \<mapsto> F, ''G'' \<mapsto> G)))"
proof (cases "evaluate_v3 self x Map.empty")
  case (Inl e)
  then have "\<forall>out. evaluate_v3 self x out =
      (case (Inl e :: error + real list \<times> real list) of
         Inl e \<Rightarrow> Inl e | Inr (F, G) \<Rightarrow> Inr (self, out(''F'' \<mapsto> F, ''G'' \<mapsto> G)))"
    by (auto simp: evaluate_v3_def Let_def split: sum.splits)
  then show ?thesis by blast
next
  case (Inr a)
  then obtain F G where
    "\<forall>out. evaluate_v3 self x out = Inr (self, out(''F'' \<mapsto> F, ''G'' \<mapsto> G))"
    by (auto simp: evaluate_v3_def Let_def split: sum.splits)
  then have "\<forall>out. evaluate_v3 self x out =
      (case (Inr (F, G) :: error + real list \<times> real list) of
         Inl e \<Rightarrow> Inl e | Inr (F, G) \<Rightarrow> Inr (self, out(''F'' \<mapsto> F, ''G'' \<mapsto> G)))"
    by simp
  then show ?thesis by blast
qed

lemma shaped_evaluator_pure:
  assumes shape: "\<forall>out. ev self x out =
      (case r of Inl e \<Rightarrow> Inl e | Inr (F, G) \<Rightarrow> Inr (self, out(''F'' \<mapsto> F, ''G'' \<mapsto> G)))"
  shows "evaluate_times ev (Suc k) self x out = ev self x out"
    and "objectives (ev self x out2) = objectives (ev self x out)"
    and "constraints (ev self x out2) = constraints (ev self x out)"
    and "ev self x out = Inr (self', out') \<Longrightarrow> self' = self"
proof -
  show "evaluate_times ev (Suc k) self x out = ev self x out"
  proof (induction k arbitrary: out)
    case 0
    show ?case using shape by (cases r) auto
  next
    case (Suc k)
    show ?case
    proof (cases r)
      case (Inl e)
      then show ?thesis using shape by simp
    next
      case (Inr fg)
      obtain F G where fg: "fg = (F, G)" by (cases fg)
      have step: "ev self x out = Inr (self, out(''F'' \<mapsto> F, ''G'' \<mapsto> G))" for out
        using shape Inr fg by simp
      have "evaluate_times ev (Suc (Suc k)) self x out
              = evaluate_times ev (Suc k) self x (out(''F'' \<mapsto> F, ''G'' \<mapsto> G))"
        by (simp add: step)
      also have "\<dots> = ev self x (out(''F'' \<mapsto> F, ''G'' \<mapsto> G))"
        by (rule Suc.IH)
      also have "\<dots> = ev self x out"
        by (simp add: step)
      finally show ?thesis .
    qed
  qed
  show "objectives (ev self x out2) = objectives (ev self x out)"
    using shape by (cases r) (auto simp: objectives_def)
  show "constraints (ev self x out2) = constraints (ev self x out)"
    using shape by (cases r) (auto simp: constraints_def)
  show "ev self x out = Inr (self', out') \<Longrightarrow> self' = self"
    using shape by (cases r) auto
qed

text \<open>
  C8. Evaluation is idempotent and free of side effects: calling the evaluator on the
  same candidate any positive number of times in a row, each call on the state the
  previous one left, ends exactly where a single call ends (also when that call raises);
  the objective row and the constraint row do not depend on what the dictionary held
  before; and a call that returns leaves the problem object, and so the table, as it
  was. In either script.
\<close>

theorem C8_evaluation_idempotent:
  "evaluate_times evaluate_v2 (Suc k) self x out = evaluate_v2 self x out
   \<and> evaluate_times evaluate_v3 (Suc k) self x out = evaluate_v3 self x out
   \<and> objectives (evaluate_v2 self x out2) = objectives (evaluate_v2 self x out)
   \<and> constraints (evaluate_v2 self x out2) = constraints (evaluate_v2 self x out)
   \<and> objectives (evaluate_v3 self x out2) = objectives (evaluate_v3 self x out)
   \<and> constraints (evaluate_v3 self x out2) = constraints (evaluate_v3 self x out)
   \<and> (\<forall>self' out'. evaluate_v2 self x out = Inr (self', out') \<longrightarrow> self' = self)
   \<and> (\<forall>self' out'. evaluate_v3 self x out = Inr (self', out') \<longrightarrow> self' = self)"
proof -
  obtain r2 where r2: "\<forall>out. evaluate_v2 self x out =
      (case r2 of Inl e \<Rightarrow> Inl e | Inr (F, G) \<Rightarrow> Inr (self, out(''F'' \<mapsto> F, ''G'' \<mapsto> G)))"
    using evaluate_v2_shape by blast
  obtain r3 where r3: "\<forall>out. evaluate_v3 self x out =
      (case r3 of Inl e \<Rightarrow> Inl e | Inr (F, G) \<Rightarrow> Inr (self, out(''F'' \<mapsto> F, ''G'' \<mapsto> G)))"
    using evaluate_v3_shape by blast
  show ?thesis
    using shaped_evaluator_pure [where ev = evaluate_v2 and self = self and x = x and r = r2, OF r2]
          shaped_evaluator_pure [where ev = evaluate_v3 and self = self and x = x and r = r3, OF r3]
    by blast
qed

theorem C8_evaluation_idempotent_witness:
  "evaluate_v2 (TrainSchedulingProblem small_fleet) [1, 1, 0] Map.empty
     = Inr (TrainSchedulingProblem small_fleet, [''F'' \<mapsto> [150, 15], ''G'' \<mapsto> [169, 0, 0]])
   \<and> evaluate_times evaluate_v2 (Suc (Suc (Suc 0))) (TrainSchedulingProblem small_fleet)
        [1, 1, 0] Map.empty
     = Inr (TrainSchedulingProblem small_fleet, [''F'' \<mapsto> [150, 15], ''G'' \<mapsto> [169, 0, 0]])
   \<and> df (TrainSchedulingProblem small_fleet) = small_fleet"
  using C8_evaluation_idempotent [of "Suc (Suc 0)" "TrainSchedulingProblem small_fleet"
          "[1, 1, 0]" Map.empty Map.empty]
  by (simp add: TrainSchedulingProblem_def small_fleet_defs
        evaluate_v2_def np_sum_mul_def np_mul_def safe_divisor_def
        bool_values_def N_TO_SELECT_def)

section \<open>Claim about the punctuality derivation\<close>

lemma series_min_bound:
  assumes "series_min ms = Some lo"
  shows "lo \<in> set ms \<and> (\<forall>m \<in> set ms. lo \<le> m)"
proof (cases ms)
  case Nil
  then show ?thesis using assms by (simp add: series_min_def)
next
  case (Cons v rest)
  then have "lo = Min (set ms)"
    using assms Min.set_eq_fold [of v rest] by (simp add: series_min_def)
  moreover have "finite (set ms)" and "set ms \<noteq> {}" using Cons by simp_all
  ultimately show ?thesis using Min_in Min_le by blast
qed

lemma series_max_bound:
  assumes "series_max ms = Some hi"
  shows "hi \<in> set ms \<and> (\<forall>m \<in> set ms. m \<le> hi)"
proof (cases ms)
  case Nil
  then show ?thesis using assms by (simp add: series_max_def)
next
  case (Cons v rest)
  then have "hi = Max (set ms)"
    using assms Max.set_eq_fold [of v rest] by (simp add: series_max_def)
  moreover have "finite (set ms)" and "set ms \<noteq> {}" using Cons by simp_all
  ultimately show ?thesis using Max_in Max_ge by blast
qed

lemma round_half_even_lower:
  assumes "of_int k \<le> v"
  shows "k \<le> round_half_even v"
proof -
  have "k \<le> \<lfloor>v\<rfloor>" using assms by (simp add: le_floor_iff)
  then show ?thesis by (simp add: round_half_even_def Let_def)
qed

lemma round_half_even_upper:
  assumes "v \<le> of_int k"
  shows "round_half_even v \<le> k"
proof (cases "v = of_int k")
  case True
  then show ?thesis by (simp add: round_half_even_def Let_def)
next
  case False
  then have "v < of_int k" using assms by simp
  then have "\<lfloor>v\<rfloor> < k" by (simp add: floor_less_iff)
  then have "\<lfloor>v\<rfloor> + 1 \<le> k" by simp
  then show ?thesis by (simp add: round_half_even_def Let_def)
qed

lemma round2_range:
  assumes "95 \<le> v" and "v \<le> 100"
  shows "95 \<le> round2 v \<and> round2 v \<le> 100"
proof -
  have "of_int 9500 \<le> v * 100" and "v * 100 \<le> of_int 10000"
    using assms by simp_all
  then have "9500 \<le> round_half_even (v * 100)" and "round_half_even (v * 100) \<le> 10000"
    using round_half_even_lower [of 9500 "v * 100"] round_half_even_upper [of "v * 100" 10000]
    by blast+
  then have "(9500::real) \<le> of_int (round_half_even (v * 100))"
    and "of_int (round_half_even (v * 100)) \<le> (10000::real)"
    by linarith+
  then show ?thesis by (simp add: round2_def)
qed

text \<open>
  C10. For every mileage column whose maximum strictly exceeds its minimum, the derived
  punctuality score of every unit is 100 minus 5 times the min-max normalised mileage,
  rounded to 2 decimals, and lies between 95 and 100.
\<close>

theorem C10_punctuality_range:
  assumes "series_min ms = Some lo" and "series_max ms = Some hi" and "lo < hi"
  shows "derive_punctuality_score ms
           = map (\<lambda>m. Some (round2 (100 - 5 * ((m - lo) / (hi - lo))))) ms
       \<and> (\<forall>p \<in> set (derive_punctuality_score ms). \<exists>v. p = Some v \<and> 95 \<le> v \<and> v \<le> 100)"
proof -
  have eq: "derive_punctuality_score ms
           = map (\<lambda>m. Some (round2 (100 - 5 * ((m - lo) / (hi - lo))))) ms"
    using assms by (simp add: derive_punctuality_score_def float_div_def mult.commute)
  have "\<exists>v. p = Some v \<and> 95 \<le> v \<and> v \<le> 100"
    if "p \<in> set (derive_punctuality_score ms)" for p
  proof -
    from that eq obtain m where m: "m \<in> set ms"
      and p: "p = Some (round2 (100 - 5 * ((m - lo) / (hi - lo))))"
      by auto
    have "lo \<le> m" and "m \<le> hi"
      using m series_min_bound [OF assms(1)] series_max_bound [OF assms(2)] by auto
    then have "0 \<le> (m - lo) / (hi - lo)" and "(m - lo) / (hi - lo) \<le> 1"
      using assms(3) by simp_all
    then have "95 \<le> 100 - 5 * ((m - lo) / (hi - lo))"
      and "100 - 5 * ((m - lo) / (hi - lo)) \<le> 100"
      by linarith+
    then show ?thesis using p round2_range by blast
  qed
  then show ?thesis using eq by blast
qed

theorem C10_punctuality_range_witness:
  "series_min [0, 8, 3] = Some 0 \<and> series_max [0, 8, 3] = Some 8 \<and> (0::real) < 8
   \<and> derive_punctuality_score [0, 8, 3] = [Some 100, Some 95, Some (9812 / 100)]
   \<and> (95::real) \<le> 9812 / 100 \<and> (9812::real) / 100 \<le> 100"
  using C10_punctuality_range [of "[0, 8, 3]" 0 8]
  by (simp add: series_min_def series_max_def round2_def round_half_even_def Let_def)

section \<open>Claims about loading and reporting\<close>

text \<open>
  C3. When the optimiser found no feasible solution (\<^verbatim>\<open>res.X\<close> is \<^verbatim>\<open>None\<close>), the first
  script prints that no valid solution could be found and prints no solution. The second
  script does not test for \<^verbatim>\<open>None\<close>: after its header, iterating over \<^verbatim>\<open>res.X\<close>
  raises \<^verbatim>\<open>TypeError\<close>, so it gives no indication of infeasibility.
\<close>

theorem C3_no_feasible_solution:
  "results_v2 sort_values t \<lparr>res_X = None, res_F = None\<rparr>
     = ([ResultsHeader,
         EligibleTrains (length (filter (\<lambda>u. \<not> job_card_open u \<and> fitness_certificate_valid u) t)),
         NoValidSolution], None)
   \<and> results_v3 t \<lparr>res_X = None, res_F = None\<rparr> = ([AnalysisHeader], Some TypeError)"
  by (simp add: results_v2_def results_v3_def)

text \<open>
  C4, as stated, fails: an empty table that was loaded is not rejected; the first script
  constructs the problem with \<^verbatim>\<open>n_var = 0\<close> and calls the optimiser.
\<close>

theorem C4_empty_table_counterexample:
  "script_v2 (Inr []) \<noteq> ExitedWithMessage
   \<and> script_v2 (Inr [])
       = MinimizeCalled \<lparr>n_var = 0, n_obj = 2, n_constr = 3, xl = 0, xu = 1, df = []\<rparr> 200 400"
  by (simp add: script_v2_def TrainSchedulingProblem_def)

text \<open>
  C4, amended. The first script stops with a message before the optimiser is called
  exactly when loading raised \<^verbatim>\<open>FileNotFoundError\<close>; any other exception raised
  while loading is not handled; and every table that was loaded is handed to the
  optimiser, with \<^verbatim>\<open>n_var\<close> equal to its number of rows.
\<close>

theorem C4_fail_fast_only_missing_file:
  "(script_v2 loaded = ExitedWithMessage \<longleftrightarrow> loaded = Inl FileNotFoundError)
   \<and> script_v2 (Inl OtherError) = Uncaught OtherError
   \<and> (\<exists>p. script_v2 (Inr t) = MinimizeCalled p 200 400 \<and> n_var p = length t \<and> df p = t)"
  by (auto simp: script_v2_def TrainSchedulingProblem_def split: sum.splits load_error.splits)

theorem C4_fail_fast_only_missing_file_witness:
  "script_v2 (Inl FileNotFoundError) = ExitedWithMessage
   \<and> script_v2 (Inr small_fleet) = MinimizeCalled (TrainSchedulingProblem small_fleet) 200 400
   \<and> n_var (TrainSchedulingProblem small_fleet) = 3"
  using C4_fail_fast_only_missing_file [of "Inl FileNotFoundError" small_fleet]
  by (simp add: script_v2_def TrainSchedulingProblem_def small_fleet_def)




lemma bool_index_bitstring:
  assumes "length x = length t" and "bitstring x"
  shows "bool_index t (map (\<lambda>v. v > 1 / 2) x) = Inr (selected_units t x)"
    and "bool_index t (map (\<lambda>v. v \<noteq> 0) x) = Inr (selected_units t x)"
proof -
  have "map fst (filter snd (zip t (map (\<lambda>v. v > 1 / 2) x))) = selected_units t x
        \<and> map fst (filter snd (zip t (map (\<lambda>v. v \<noteq> 0) x))) = selected_units t x"
    using assms
    by (induction x t rule: list_induct2) (auto simp: bitstring_def selected_units_def)
  then show "bool_index t (map (\<lambda>v. v > 1 / 2) x) = Inr (selected_units t x)"
    and "bool_index t (map (\<lambda>v. v \<noteq> 0) x) = Inr (selected_units t x)"
    using assms by (simp_all add: bool_index_def)
qed

lemma analyse_v3_from:
  assumes "length xs = length fs"
    and "\<forall>x \<in> set xs. length x = length t \<and> bitstring x"
    and "\<forall>f \<in> set fs. length f = 3"
    and "i \<le> length xs"
  shows "analyse_v3 t (Some fs) i (drop i xs)
           = (concat (map (\<lambda>j. [OptimalFleet (j + 1),
                                  Performance (fs ! j ! 0) (100 - fs ! j ! 1) (- (fs ! j ! 2)),
                                  SelectedTrains (length (selected_units t (xs ! j)))
                                    (map trainsetId (selected_units t (xs ! j)))])
                         [i..<length xs]), None)"
  using assms(4)
proof (induction "length xs - i" arbitrary: i)
  case 0
  then show ?case by simp
next
  case (Suc k)
  then have i: "i < length xs" by simp
  have dr: "drop i xs = xs ! i # drop (Suc i) xs"
    using i by (simp add: Cons_nth_drop_Suc)
  have row: "length (xs ! i) = length t" "bitstring (xs ! i)"
    using assms(2) i by auto
  have f3: "length (fs ! i) = 3"
    using assms(1,3) i by auto
  have IH: "analyse_v3 t (Some fs) (Suc i) (drop (Suc i) xs)
           = (concat (map (\<lambda>j. [OptimalFleet (j + 1),
                                  Performance (fs ! j ! 0) (100 - fs ! j ! 1) (- (fs ! j ! 2)),
                                  SelectedTrains (length (selected_units t (xs ! j)))
                                    (map trainsetId (selected_units t (xs ! j)))])
                         [Suc i..<length xs]), None)"
    using Suc.hyps(1) [of "Suc i"] Suc.hyps(2) i by simp
  show ?case
    using i assms(1) f3 IH
    by (simp add: dr bool_index_bitstring(1) [OF row] upt_conv_Cons del: upt_Suc)
qed

lemma print_solutions_v2_from:
  assumes "length xs = length fs"
    and "\<forall>x \<in> set xs. length x = length t \<and> bitstring x"
    and "\<forall>f \<in> set fs. length f = 2"
    and "i \<le> length xs"
  shows "print_solutions_v2 srt t i (drop i (zip xs fs))
           = (concat (map (\<lambda>j. [SolutionHeader (j + 1), CostMileage (fs ! j ! 0),
                                  Punctuality (100 - fs ! j ! 1), SelectedTrainsHeader,
                                  SelectedTrainsRows
                                    (map (\<lambda>u. (trainsetId u, mileage u, punctuality_score u))
                                       (srt (selected_units t (xs ! j))))])
                         [i..<length xs]), None)"
  using assms(4)
proof (induction "length xs - i" arbitrary: i)
  case 0
  then show ?case using assms(1) by simp
next
  case (Suc k)
  then have i: "i < length xs" by simp
  have dr: "drop i (zip xs fs) = (xs ! i, fs ! i) # drop (Suc i) (zip xs fs)"
    using i assms(1) by (simp add: Cons_nth_drop_Suc [symmetric])
  have row: "length (xs ! i) = length t" "bitstring (xs ! i)"
    using assms(2) i by auto
  have "length (fs ! i) = 2"
    using assms(1,3) i by auto
  then obtain c p where f2: "fs ! i = [c, p]"
    by (cases "fs ! i"; cases "tl (fs ! i)") auto
  have IH: "print_solutions_v2 srt t (Suc i) (drop (Suc i) (zip xs fs))
           = (concat (map (\<lambda>j. [SolutionHeader (j + 1), CostMileage (fs ! j ! 0),
                                  Punctuality (100 - fs ! j ! 1), SelectedTrainsHeader,
                                  SelectedTrainsRows
                                    (map (\<lambda>u. (trainsetId u, mileage u, punctuality_score u))
                                       (srt (selected_units t (xs ! j))))])
                         [Suc i..<length xs]), None)"
    using Suc.hyps(1) [of "Suc i"] Suc.hyps(2) i by simp
  show ?case
    using i IH
    by (simp add: dr f2 bool_index_bitstring(2) [OF row] upt_conv_Cons del: upt_Suc)
qed

text \<open>
  C7. For every solution the optimiser returned (a bit-string of the table's length),
  the report maps the bit-string back to the selected units and converts the stored
  objectives back: punctuality is reported as 100 minus the stored second objective and,
  in the second script, branding as the negation of the stored third objective. The
  second script lists the identifiers of the selected units in table order; the first
  script lists the selected rows ordered by ascending mileage. The first objective is
  reported as stored.
\<close>

theorem C7_report_of_solutions:
  assumes "length xs = length fs2" and "length xs = length fs3"
    and "\<forall>x \<in> set xs. length x = length t \<and> bitstring x"
    and "\<forall>f \<in> set fs2. length f = 2"
    and "\<forall>f \<in> set fs3. length f = 3"
    and "\<forall>rows. mset (sort_values rows) = mset rows \<and> sorted (map mileage (sort_values rows))"
  shows "results_v3 t \<lparr>res_X = Some xs, res_F = Some fs3\<rparr>
           = (AnalysisHeader #
              concat (map (\<lambda>j. [OptimalFleet (j + 1),
                                 Performance (fs3 ! j ! 0) (100 - fs3 ! j ! 1) (- (fs3 ! j ! 2)),
                                 SelectedTrains (length (selected_units t (xs ! j)))
                                   (map trainsetId (selected_units t (xs ! j)))])
                        [0..<length xs])
              @ [AnalysisFooter], None)
       \<and> results_v2 sort_values t \<lparr>res_X = Some xs, res_F = Some fs2\<rparr>
           = ([ResultsHeader,
               EligibleTrains
                 (length (filter (\<lambda>u. \<not> job_card_open u \<and> fitness_certificate_valid u) t)),
               FoundSolutions (length xs)]
              @ concat (map (\<lambda>j. [SolutionHeader (j + 1), CostMileage (fs2 ! j ! 0),
                                   Punctuality (100 - fs2 ! j ! 1), SelectedTrainsHeader,
                                   SelectedTrainsRows
                                     (map (\<lambda>u. (trainsetId u, mileage u, punctuality_score u))
                                        (sort_values (selected_units t (xs ! j))))])
                          [0..<length xs]), None)
       \<and> (\<forall>j < length xs.
             mset (sort_values (selected_units t (xs ! j))) = mset (selected_units t (xs ! j))
             \<and> sorted (map mileage (sort_values (selected_units t (xs ! j)))))"
proof -
  have v3: "analyse_v3 t (Some fs3) 0 xs
           = (concat (map (\<lambda>j. [OptimalFleet (j + 1),
                                  Performance (fs3 ! j ! 0) (100 - fs3 ! j ! 1) (- (fs3 ! j ! 2)),
                                  SelectedTrains (length (selected_units t (xs ! j)))
                                    (map trainsetId (selected_units t (xs ! j)))])
                         [0..<length xs]), None)"
    using analyse_v3_from [OF assms(2) assms(3) assms(5), of 0] by simp
  have v2: "print_solutions_v2 sort_values t 0 (zip xs fs2)
           = (concat (map (\<lambda>j. [SolutionHeader (j + 1), CostMileage (fs2 ! j ! 0),
                                  Punctuality (100 - fs2 ! j ! 1), SelectedTrainsHeader,
                                  SelectedTrainsRows
                                    (map (\<lambda>u. (trainsetId u, mileage u, punctuality_score u))
                                       (sort_values (selected_units t (xs ! j))))])
                         [0..<length xs]), None)"
    using print_solutions_v2_from [OF assms(1) assms(3) assms(4), of 0 sort_values] by simp
  show ?thesis
    using assms(1) assms(6) by (simp add: results_v3_def results_v2_def v3 v2)
qed

theorem C7_report_of_solutions_witness:
  "results_v3 small_fleet
     \<lparr>res_X = Some [[1, 1, 0], [0, 1, 0]], res_F = Some [[150, 15, - 3], [50, 20, 0]]\<rparr>
     = ([AnalysisHeader,
         OptimalFleet 1, Performance 150 85 3, SelectedTrains 2 [''A'', ''B''],
         OptimalFleet 2, Performance 50 80 0, SelectedTrains 1 [''B''],
         AnalysisFooter], None)
   \<and> results_v2 (sort_key mileage) small_fleet
        \<lparr>res_X = Some [[1, 1, 0], [0, 1, 0]], res_F = Some [[150, 15], [50, 20]]\<rparr>
     = ([ResultsHeader, EligibleTrains 2, FoundSolutions 2,
         SolutionHeader 1, CostMileage 150, Punctuality 85, SelectedTrainsHeader,
         SelectedTrainsRows [(''B'', 50, 80), (''A'', 100, 90)],
         SolutionHeader 2, CostMileage 50, Punctuality 80, SelectedTrainsHeader,
         SelectedTrainsRows [(''B'', 50, 80)]], None)"
  using C7_report_of_solutions [of "[[1, 1, 0], [0, 1, 0]]" "[[150, 15], [50, 20]]"
          "[[150, 15, - 3], [50, 20, 0]]" small_fleet "sort_key mileage"]
  by (simp add: small_fleet_defs bitstring_def selected_units_def upt_rec)

end
